theory Spec2Isabelle
  imports Main "HOL-Library.Word"
begin

section \<open>The dataset token estimator (scripts/count_tokens.py)\<close>

text \<open>
  The script reads a JSONL file line by line, decodes every non-blank line, extracts the
  texts of the record, asks the token-counting service for their token count, adds the
  counts up and prints a report. The embedding below follows the script statement by
  statement. What the script takes from outside (the environment variables, the files on
  disk, the construction of the client, \<open>json.loads\<close> and the token-counting service)
  is a parameter of the model, the record \<open>world\<close>; every \<open>raise\<close> and every
  \<open>sys.exit\<close> is a value.
\<close>

subsection \<open>Python strings\<close>

text \<open>
  A Python \<open>str\<close> is a sequence of Unicode code points. \<open>ascii\<close> turns a literal of
  the script into its code points.
\<close>

type_synonym str = "nat list"

definition ascii :: "string \<Rightarrow> str" where
  "ascii s = map of_char s"

text \<open>
  The whitespace of \<open>str.strip()\<close> and \<open>str.isspace()\<close>: tab to carriage return, the
  four separators U+001C to U+001F, the space, and the Unicode spaces beyond ASCII.
\<close>

definition is_space :: "nat \<Rightarrow> bool" where
  "is_space c =
     ((9 \<le> c \<and> c \<le> 13) \<or> (28 \<le> c \<and> c \<le> 32) \<or> c = 0x85 \<or> c = 0xA0 \<or> c = 0x1680
      \<or> (0x2000 \<le> c \<and> c \<le> 0x200A) \<or> c = 0x2028 \<or> c = 0x2029 \<or> c = 0x202F
      \<or> c = 0x205F \<or> c = 0x3000)"

definition str_strip :: "str \<Rightarrow> str" where
  "str_strip s = rev (dropWhile is_space (rev (dropWhile is_space s)))"

text \<open>\<open>s.isspace()\<close>: at least one character, and all of them whitespace.\<close>

definition str_isspace :: "str \<Rightarrow> bool" where
  "str_isspace s = (s \<noteq> [] \<and> list_all is_space s)"

subsection \<open>Decoded JSON values and the exceptions of the script\<close>

text \<open>
  What \<open>json.loads\<close> returns: \<open>None\<close>, a \<open>bool\<close>, an \<open>int\<close>, a \<open>float\<close> (its 64
  bits), a \<open>str\<close>, a \<open>list\<close> or a \<open>dict\<close>. A \<open>dict\<close> is the list of its items
  in insertion order; its keys are strings and \<open>map_of\<close> looks a key up.
\<close>

datatype json =
    JNull
  | JBool bool
  | JInt int
  | JFloat "64 word"
  | JStr str
  | JList "json list"
  | JDict "(str \<times> json) list"

datatype exn =
    JSONDecodeError
  | APIError str
  | AttributeError
  | IndexError
  | KeyError
  | TypeError
  | OtherException str

text \<open>Truth value of an object, as \<open>if x:\<close> tests it. A float is false when it is
  \<open>0.0\<close> or \<open>-0.0\<close>: all bits below the sign bit are zero.\<close>

fun truthy :: "json \<Rightarrow> bool" where
  "truthy JNull = False"
| "truthy (JBool b) = b"
| "truthy (JInt i) = (i \<noteq> 0)"
| "truthy (JFloat w) = (take_bit 63 w \<noteq> 0)"
| "truthy (JStr s) = (s \<noteq> [])"
| "truthy (JList xs) = (xs \<noteq> [])"
| "truthy (JDict kvs) = (kvs \<noteq> [])"

text \<open>\<open>obj.get(key, default)\<close>: only a \<open>dict\<close> has the method.\<close>

fun dict_get :: "json \<Rightarrow> str \<Rightarrow> json \<Rightarrow> exn + json" where
  "dict_get (JDict kvs) k d = Inr (case map_of kvs k of None \<Rightarrow> d | Some v \<Rightarrow> v)"
| "dict_get _ k d = Inl AttributeError"

text \<open>\<open>obj[key]\<close> with a string key: a missing key of a \<open>dict\<close> is a \<open>KeyError\<close>;
  a list or a string wants an integer index, anything else is not subscriptable.\<close>

fun getitem_key :: "json \<Rightarrow> str \<Rightarrow> exn + json" where
  "getitem_key (JDict kvs) k = (case map_of kvs k of None \<Rightarrow> Inl KeyError | Some v \<Rightarrow> Inr v)"
| "getitem_key _ k = Inl TypeError"

text \<open>\<open>obj[0]\<close>: the first element of a list, the first character of a string (a string
  of length one); \<open>0\<close> is no key of a decoded \<open>dict\<close>, whose keys are strings.\<close>

fun getitem_0 :: "json \<Rightarrow> exn + json" where
  "getitem_0 (JList []) = Inl IndexError"
| "getitem_0 (JList (x # xs)) = Inr x"
| "getitem_0 (JStr []) = Inl IndexError"
| "getitem_0 (JStr (c # cs)) = Inr (JStr [c])"
| "getitem_0 (JDict kvs) = Inl KeyError"
| "getitem_0 _ = Inl TypeError"

text \<open>\<open>for x in obj\<close>: the elements of a list, the characters of a string, the keys of
  a \<open>dict\<close>; anything else is not iterable.\<close>

fun py_iter :: "json \<Rightarrow> exn + json list" where
  "py_iter (JList xs) = Inr xs"
| "py_iter (JStr s) = Inr (map (\<lambda>c. JStr [c]) s)"
| "py_iter (JDict kvs) = Inr (map (\<lambda>kv. JStr (fst kv)) kvs)"
| "py_iter _ = Inl TypeError"

subsection \<open>Field extraction (lines 52 to 62)\<close>

text \<open>Line 52:
  \<^verbatim>\<open>data.get('systemInstruction', {}).get('parts', [{}])[0].get('text', '')\<close>\<close>

definition system_instruction :: "json \<Rightarrow> exn + json" where
  "system_instruction data =
     (case dict_get data (ascii ''systemInstruction'') (JDict []) of
        Inl e \<Rightarrow> Inl e
      | Inr si \<Rightarrow>
          (case dict_get si (ascii ''parts'') (JList [JDict []]) of
             Inl e \<Rightarrow> Inl e
           | Inr ps \<Rightarrow>
               (case getitem_0 ps of
                  Inl e \<Rightarrow> Inl e
                | Inr p \<Rightarrow> dict_get p (ascii ''text'') (JStr []))))"

text \<open>Lines 59 to 62, the loop over \<open>contents\<close>; the first argument is the list
  \<open>text_to_count\<close> built so far.\<close>

fun append_texts :: "json list \<Rightarrow> json list \<Rightarrow> exn + json list" where
  "append_texts acc [] = Inr acc"
| "append_texts acc (content # rest) =
     (case dict_get content (ascii ''parts'') JNull of
        Inl e \<Rightarrow> Inl e
      | Inr ps \<Rightarrow>
          if truthy ps then
            (case getitem_key content (ascii ''parts'') of
               Inl e \<Rightarrow> Inl e
             | Inr ps' \<Rightarrow>
                 (case getitem_0 ps' of
                    Inl e \<Rightarrow> Inl e
                  | Inr p \<Rightarrow>
                      (case getitem_key p (ascii ''text'') of
                         Inl e \<Rightarrow> Inl e
                       | Inr t \<Rightarrow> append_texts (acc @ [t]) rest)))
          else append_texts acc rest)"

text \<open>Lines 52 to 62: the list handed to the service, or the exception raised on the
  way.\<close>

definition text_to_count :: "json \<Rightarrow> exn + json list" where
  "text_to_count data =
     (case system_instruction data of
        Inl e \<Rightarrow> Inl e
      | Inr si \<Rightarrow>
          (case dict_get data (ascii ''contents'') (JList []) of
             Inl e \<Rightarrow> Inl e
           | Inr contents \<Rightarrow>
               (case py_iter contents of
                  Inl e \<Rightarrow> Inl e
                | Inr items \<Rightarrow> append_texts (if truthy si then [si] else []) items)))"

subsection \<open>The outside world, the console and the state of a run\<close>

text \<open>
  A call of \<open>client.models.count_tokens\<close> returns a response whose \<open>total_tokens\<close> is
  an \<open>int\<close> or \<open>None\<close>, or raises. The service is asked over the network, so its
  answer may depend on which call of the run it is: the first argument of
  \<open>count_tokens\<close> is the number of calls made before.
  A path of the disk holds no file, a text file (its lines, as iterating over the open
  file yields them) or something that \<open>open\<close> refuses. A file whose bytes stop being
  UTF-8 somewhere in the middle is not among them: the model reads text files only.
\<close>

datatype response = CountTokensResponse "int option" | Raises exn

datatype py_file = TextFile "str list" | Unreadable exn

record world =
  files :: "str \<Rightarrow> py_file option"
  environ :: "str \<Rightarrow> str option"
  genai_Client :: "str \<Rightarrow> str \<Rightarrow> exn option"
  json_loads :: "str \<Rightarrow> exn + json"
  count_tokens :: "nat \<Rightarrow> str \<Rightarrow> json list \<Rightarrow> response"

text \<open>One constructor for each \<open>print\<close> of the script, with the values it formats.\<close>

datatype message =
    DatasetNotFound str
  | EnvMissing
  | EnvHint
  | ClientInitFailed
  | PrintException exn
  | CountingTokensFor str str
  | Dashes
  | SkippingLine int
  | APIErrorOnLine int
  | UnexpectedError exn
  | ReportRuleTop
  | ReportTitle
  | ReportRule
  | ReportFile str
  | ReportTotalExamples int
  | ReportTotalTokens int
  | ReportEstimated int

text \<open>The messages of the final report, lines 84 to 94.\<close>

fun is_report :: "message \<Rightarrow> bool" where
  "is_report ReportRuleTop = True"
| "is_report ReportTitle = True"
| "is_report ReportRule = True"
| "is_report (ReportFile p) = True"
| "is_report (ReportTotalExamples n) = True"
| "is_report (ReportTotalTokens n) = True"
| "is_report (ReportEstimated n) = True"
| "is_report m = False"

text \<open>The two counters, what was printed, the calls made to the service (model name and
  contents, oldest first) and the disk.\<close>

record state =
  total_tokens :: int
  total_examples :: int
  stdout :: "message list"
  api_calls :: "(str \<times> json list) list"
  disk :: "str \<Rightarrow> py_file option"

definition py_print :: "state \<Rightarrow> message \<Rightarrow> state" where
  "py_print s m = s\<lparr>stdout := stdout s @ [m]\<rparr>"

text \<open>How a piece of the script ends: it runs through, it calls \<open>sys.exit\<close>, or an
  exception that nothing catches ends the process with a traceback.\<close>

datatype control = Normal | SysExit int | Uncaught exn

fun exit_code :: "control \<Rightarrow> int" where
  "exit_code Normal = 0"
| "exit_code (SysExit n) = n"
| "exit_code (Uncaught e) = 1"

subsection \<open>One line of the file (lines 44 to 81)\<close>

text \<open>The body of the \<open>try\<close>, lines 49 to 71: the new state, or the exception raised
  and the state at that moment. The call is recorded before its answer is looked at.\<close>

definition try_body :: "world \<Rightarrow> str \<Rightarrow> state \<Rightarrow> str \<Rightarrow> (exn \<times> state) + state" where
  "try_body w model_name s line =
     (case json_loads w line of
        Inl e \<Rightarrow> Inl (e, s)
      | Inr data \<Rightarrow>
          (case text_to_count data of
             Inl e \<Rightarrow> Inl (e, s)
           | Inr texts \<Rightarrow>
               (let s1 = s\<lparr>api_calls := api_calls s @ [(model_name, texts)]\<rparr> in
                case count_tokens w (length (api_calls s)) model_name texts of
                  Raises e \<Rightarrow> Inl (e, s1)
                | CountTokensResponse None \<Rightarrow> Inl (TypeError, s1)
                | CountTokensResponse (Some n) \<Rightarrow>
                    Inr (s1\<lparr>total_tokens := total_tokens s1 + n,
                            total_examples := total_examples s1 + 1\<rparr>))))"

text \<open>The three \<open>except\<close> clauses, lines 73 to 81, in their order.\<close>

fun except :: "exn \<Rightarrow> state \<Rightarrow> control \<times> state" where
  "except JSONDecodeError s = (Normal, py_print s (SkippingLine (total_examples s + 1)))"
| "except (APIError e) s =
     (SysExit 1,
      py_print (py_print s (APIErrorOnLine (total_examples s + 1))) (PrintException (APIError e)))"
| "except e s = (SysExit 1, py_print s (UnexpectedError e))"

definition process_line :: "world \<Rightarrow> str \<Rightarrow> state \<Rightarrow> str \<Rightarrow> control \<times> state" where
  "process_line w model_name s raw =
     (let line = str_strip raw in
      if line = [] then (Normal, s)
      else (case try_body w model_name s line of
              Inr s' \<Rightarrow> (Normal, s')
            | Inl (e, s') \<Rightarrow> except e s'))"

text \<open>The \<open>for\<close> loop of line 43.\<close>

fun for_lines :: "world \<Rightarrow> str \<Rightarrow> state \<Rightarrow> str list \<Rightarrow> control \<times> state" where
  "for_lines w model_name s [] = (Normal, s)"
| "for_lines w model_name s (raw # rest) =
     (case process_line w model_name s raw of
        (Normal, s') \<Rightarrow> for_lines w model_name s' rest
      | (c, s') \<Rightarrow> (c, s'))"

subsection \<open>The whole function (lines 8 to 94) and the entry point\<close>

text \<open>Lines 84 to 94.\<close>

definition final_output :: "str \<Rightarrow> state \<Rightarrow> state" where
  "final_output file_path s =
     (let s1 = py_print s ReportRuleTop;
          s2 = py_print s1 ReportTitle;
          s3 = py_print s2 ReportRule;
          s4 = py_print s3 (ReportFile file_path);
          s5 = py_print s4 (ReportTotalExamples (total_examples s4));
          s6 = py_print s5 (ReportTotalTokens (total_tokens s5));
          estimated_cost_tokens = total_tokens s6 * 3;
          s7 = py_print s6 (ReportEstimated estimated_cost_tokens)
      in py_print s7 ReportRule)"

text \<open>\<open>not x\<close> for the value of \<open>os.environ.get\<close>: \<open>None\<close> or the empty string.\<close>

fun not_set :: "str option \<Rightarrow> bool" where
  "not_set None = True"
| "not_set (Some v) = (v = [])"

definition initial :: "world \<Rightarrow> state" where
  "initial w = \<lparr>total_tokens = 0, total_examples = 0, stdout = [], api_calls = [], disk = files w\<rparr>"

text \<open>Lines 14 to 40: the two checks, the client and the two header lines. \<open>Normal\<close>
  means that the function goes on to open the file.\<close>

definition startup :: "world \<Rightarrow> str \<Rightarrow> str \<Rightarrow> control \<times> state" where
  "startup w file_path model_name =
     (let s = initial w in
      if disk s file_path = None then (SysExit 1, py_print s (DatasetNotFound file_path))
      else
        (let project_id = environ w (ascii ''GCP_PROJECT'');
             location = environ w (ascii ''GCP_LOCATION'')
         in
         if not_set project_id \<or> not_set location
         then (SysExit 1, py_print (py_print s EnvMissing) EnvHint)
         else
           (case genai_Client w (the project_id) (the location) of
              Some e \<Rightarrow> (SysExit 1, py_print (py_print s ClientInitFailed) (PrintException e))
            | None \<Rightarrow>
                (Normal,
                 py_print (py_print s (CountingTokensFor model_name (the location))) Dashes))))"

text \<open>Line 42: \<open>open\<close> raises when the path holds no file or one it cannot read, and
  nothing catches that.\<close>

definition open_file :: "state \<Rightarrow> str \<Rightarrow> exn + str list" where
  "open_file s file_path =
     (case disk s file_path of
        None \<Rightarrow> Inl (OtherException (ascii ''FileNotFoundError''))
      | Some (Unreadable e) \<Rightarrow> Inl e
      | Some (TextFile f) \<Rightarrow> Inr f)"

definition count_tokens_in_jsonl :: "world \<Rightarrow> str \<Rightarrow> str \<Rightarrow> control \<times> state" where
  "count_tokens_in_jsonl w file_path model_name =
     (case startup w file_path model_name of
        (Normal, s) \<Rightarrow>
          (case open_file s file_path of
             Inl e \<Rightarrow> (Uncaught e, s)
           | Inr f \<Rightarrow>
               (case for_lines w model_name s f of
                  (Normal, s') \<Rightarrow> (Normal, final_output file_path s')
                | (c, s') \<Rightarrow> (c, s')))
      | (c, s) \<Rightarrow> (c, s))"

text \<open>Lines 97 to 113. \<open>argparse\<close> gives the positional argument, or the default when
  there is none; line 110 replaces an empty or all-whitespace value by the default.\<close>

definition default_file_path :: str where
  "default_file_path = ascii ''data/training.jsonl''"

definition default_model :: str where
  "default_model = ascii ''gemini-2.0-flash-001''"

definition file_to_check :: "str option \<Rightarrow> str" where
  "file_to_check arg =
     (let file_path = (case arg of None \<Rightarrow> default_file_path | Some p \<Rightarrow> p) in
      if file_path = [] \<or> str_isspace file_path then default_file_path else file_path)"

definition main :: "world \<Rightarrow> str option \<Rightarrow> str option \<Rightarrow> control \<times> state" where
  "main w arg_file_path arg_model =
     count_tokens_in_jsonl w (file_to_check arg_file_path)
       (case arg_model of None \<Rightarrow> default_model | Some m \<Rightarrow> m)"

text \<open>The exceptions that field extraction can raise.\<close>

definition extraction_error :: "exn \<Rightarrow> bool" where
  "extraction_error e = (e = AttributeError \<or> e = IndexError \<or> e = KeyError \<or> e = TypeError)"

subsection \<open>Counting records and calls, in the words of the specification\<close>

text \<open>The texts of a line's record: \<open>Some\<close> when the line is not blank, decodes, and
  field extraction runs through. These are the lines for which the service is called.\<close>

definition record_texts :: "world \<Rightarrow> str \<Rightarrow> json list option" where
  "record_texts w raw =
     (if str_strip raw = [] then None
      else (case json_loads w (str_strip raw) of
              Inl e \<Rightarrow> None
            | Inr data \<Rightarrow> (case text_to_count data of Inl e \<Rightarrow> None | Inr texts \<Rightarrow> Some texts)))"

text \<open>The token count the service returns for a line, when the line's record is sent as
  call number \<open>k\<close> of the run and the call succeeds.\<close>

definition line_tokens :: "world \<Rightarrow> str \<Rightarrow> nat \<Rightarrow> str \<Rightarrow> int option" where
  "line_tokens w model_name k raw =
     (case record_texts w raw of
        None \<Rightarrow> None
      | Some texts \<Rightarrow>
          (case count_tokens w k model_name texts of
             CountTokensResponse r \<Rightarrow> r
           | Raises e \<Rightarrow> None))"

text \<open>A non-blank line, and a non-blank line that decodes as JSON without error.\<close>

definition non_blank :: "str \<Rightarrow> bool" where
  "non_blank raw = (str_strip raw \<noteq> [])"


text \<open>How many of the lines are counted records (parsed, sent and answered with a
  count), when \<open>k\<close> calls were made before the first of them.\<close>

fun records_counted :: "world \<Rightarrow> str \<Rightarrow> nat \<Rightarrow> str list \<Rightarrow> nat" where
  "records_counted w model_name k [] = 0"
| "records_counted w model_name k (raw # rest) =
     (if record_texts w raw = None then records_counted w model_name k rest
      else (if line_tokens w model_name k raw = None then 0 else 1)
           + records_counted w model_name (Suc k) rest)"

text \<open>A line that ends the run, when \<open>k\<close> calls were made before it: a non-blank
  line for which something other than \<open>JSONDecodeError\<close> is raised, by the decoder,
  by field extraction, by the call or by adding up a response without a count.\<close>

definition line_stops :: "world \<Rightarrow> str \<Rightarrow> nat \<Rightarrow> str \<Rightarrow> bool" where
  "line_stops w model_name k raw =
     (str_strip raw \<noteq> [] \<and>
      (case json_loads w (str_strip raw) of
         Inl e \<Rightarrow> e \<noteq> JSONDecodeError
       | Inr data \<Rightarrow>
           (case text_to_count data of
              Inl e \<Rightarrow> True
            | Inr texts \<Rightarrow>
                (case count_tokens w k model_name texts of
                   Raises e \<Rightarrow> e \<noteq> JSONDecodeError
                 | CountTokensResponse None \<Rightarrow> True
                 | CountTokensResponse (Some n) \<Rightarrow> False))))"

text \<open>The counts of the counted records among the lines, in the order of the file, up to
  the first line that ends the run; \<open>k\<close> calls were made before the first line.\<close>

fun counts_added :: "world \<Rightarrow> str \<Rightarrow> nat \<Rightarrow> str list \<Rightarrow> int list" where
  "counts_added w model_name k [] = []"
| "counts_added w model_name k (raw # rest) =
     (if line_stops w model_name k raw then []
      else (case line_tokens w model_name k raw of None \<Rightarrow> [] | Some n \<Rightarrow> [n])
           @ counts_added w model_name (if record_texts w raw = None then k else Suc k) rest)"

text \<open>The lines of the file a run reads: none when the path holds no text file.\<close>

definition lines_of :: "world \<Rightarrow> str \<Rightarrow> str list" where
  "lines_of w file_path = (case files w file_path of Some (TextFile f) \<Rightarrow> f | _ \<Rightarrow> [])"

subsection \<open>A small world to run the model in\<close>

text \<open>
  The file of the specification's example: one record and a blank line. The decoder of
  this world knows the lines below and rejects every other text; the service answers
  every call with 5 tokens.
\<close>

definition hi_line :: str where
  \<open>hi_line = ascii ''{"contents":[{"parts":[{"text":"hi"}]}]}''\<close>

definition hi_record :: json where
  "hi_record =
     JDict [(ascii ''contents'',
       JList [JDict [(ascii ''parts'', JList [JDict [(ascii ''text'', JStr (ascii ''hi''))]])]])]"

definition no_text_line :: str where
  \<open>no_text_line = ascii ''{"contents":[{"parts":[{}]}]}''\<close>

definition no_text_record :: json where
  "no_text_record =
     JDict [(ascii ''contents'', JList [JDict [(ascii ''parts'', JList [JDict []])]])]"

definition no_parts_line :: str where
  \<open>no_parts_line = ascii ''{"systemInstruction":{"parts":[]}}''\<close>

definition no_parts_record :: json where
  "no_parts_record = JDict [(ascii ''systemInstruction'', JDict [(ascii ''parts'', JList [])])]"

definition demo_loads :: "str \<Rightarrow> exn + json" where
  "demo_loads line =
     (if line = hi_line then Inr hi_record
      else if line = no_text_line then Inr no_text_record
      else if line = no_parts_line then Inr no_parts_record
      else if line = ascii ''5'' then Inr (JInt 5)
      else Inl JSONDecodeError)"

definition demo_environ :: "str \<Rightarrow> str option" where
  "demo_environ name =
     (if name = ascii ''GCP_PROJECT'' then Some (ascii ''demo-project'')
      else if name = ascii ''GCP_LOCATION'' then Some (ascii ''us-central1'')
      else None)"

definition demo_world :: "str list \<Rightarrow> world" where
  "demo_world f =
     \<lparr>files = (\<lambda>p. if p = default_file_path then Some (TextFile f) else None),
      environ = demo_environ,
      genai_Client = (\<lambda>project location. None),
      json_loads = demo_loads,
      count_tokens = (\<lambda>k model_name texts. CountTokensResponse (Some 5))\<rparr>"

text \<open>The same world with a service that answers every call with the count \<open>-3\<close>.\<close>

definition negative_world :: world where
  "negative_world =
     (demo_world [])\<lparr>count_tokens := (\<lambda>k model_name texts. CountTokensResponse (Some (- 3)))\<rparr>"

definition newline :: str where
  "newline = [10]"

section \<open>Properties\<close>

subsection \<open>Printing, the handlers and one line\<close>

lemma py_print_simps:
  "total_tokens (py_print s m) = total_tokens s"
  "total_examples (py_print s m) = total_examples s"
  "api_calls (py_print s m) = api_calls s"
  "disk (py_print s m) = disk s"
  "stdout (py_print s m) = stdout s @ [m]"
  by (simp_all add: py_print_def)

lemma except_frame:
  "except e s = (c, s') \<Longrightarrow>
     total_tokens s' = total_tokens s \<and> total_examples s' = total_examples s
     \<and> api_calls s' = api_calls s \<and> disk s' = disk s"
  by (cases e) (auto simp: py_print_simps)

lemma except_no_report:
  "except e s = (c, s') \<Longrightarrow> list_ex is_report (stdout s') = list_ex is_report (stdout s)"
  by (cases e) (auto simp: py_print_simps)

lemma except_extraction_error:
  "extraction_error e \<Longrightarrow> except e s = (SysExit 1, py_print s (UnexpectedError e))"
  by (auto simp: extraction_error_def)

text \<open>The line step with the \<open>try\<close> and its handlers put together.\<close>

lemma process_line_unfold:
  "process_line w m s raw =
     (if str_strip raw = [] then (Normal, s)
      else (case json_loads w (str_strip raw) of
              Inl e \<Rightarrow> except e s
            | Inr data \<Rightarrow>
                (case text_to_count data of
                   Inl e \<Rightarrow> except e s
                 | Inr texts \<Rightarrow>
                     (case count_tokens w (length (api_calls s)) m texts of
                        Raises e \<Rightarrow> except e (s\<lparr>api_calls := api_calls s @ [(m, texts)]\<rparr>)
                      | CountTokensResponse None \<Rightarrow>
                          except TypeError (s\<lparr>api_calls := api_calls s @ [(m, texts)]\<rparr>)
                      | CountTokensResponse (Some n) \<Rightarrow>
                          (Normal, s\<lparr>api_calls := api_calls s @ [(m, texts)],
                                     total_tokens := total_tokens s + n,
                                     total_examples := total_examples s + 1\<rparr>)))))"
  by (simp add: process_line_def try_body_def Let_def split: sum.splits response.splits option.splits)

lemma process_line_no_report:
  "process_line w m s raw = (c, s') \<Longrightarrow> list_ex is_report (stdout s') = list_ex is_report (stdout s)"
  by (auto simp: process_line_unfold py_print_simps
      split: if_splits sum.splits response.splits option.splits dest!: except_no_report)

subsection \<open>What field extraction can raise\<close>

lemma dict_get_raises: "dict_get j k d = Inl e \<Longrightarrow> e = AttributeError"
  by (cases j) auto

lemma getitem_key_raises: "getitem_key j k = Inl e \<Longrightarrow> e = KeyError \<or> e = TypeError"
  by (cases j) (auto split: option.splits)

lemma getitem_0_raises: "getitem_0 j = Inl e \<Longrightarrow> e = IndexError \<or> e = KeyError \<or> e = TypeError"
  by (cases j rule: getitem_0.cases) auto

lemma py_iter_raises: "py_iter j = Inl e \<Longrightarrow> e = TypeError"
  by (cases j) auto

lemma system_instruction_raises: "system_instruction data = Inl e \<Longrightarrow> extraction_error e"
  unfolding system_instruction_def extraction_error_def
  by (auto split: sum.splits dest: dict_get_raises getitem_0_raises)

lemma append_texts_raises: "append_texts acc items = Inl e \<Longrightarrow> extraction_error e"
proof (induction items arbitrary: acc)
  case Nil
  then show ?case by simp
next
  case (Cons content rest)
  then show ?case
    unfolding extraction_error_def
    by (auto split: sum.splits if_splits dest: dict_get_raises getitem_0_raises getitem_key_raises)
qed

lemma text_to_count_raises: "text_to_count data = Inl e \<Longrightarrow> extraction_error e"
  unfolding text_to_count_def
  by (auto split: sum.splits dest: system_instruction_raises append_texts_raises)
     (auto simp: extraction_error_def dest: dict_get_raises py_iter_raises)

subsection \<open>The loop and the start of a run\<close>

lemma for_lines_append:
  "for_lines w m s (xs @ ys) =
     (case for_lines w m s xs of (Normal, s') \<Rightarrow> for_lines w m s' ys | (c, s') \<Rightarrow> (c, s'))"
  by (induction xs arbitrary: s) (auto split: prod.splits control.splits)

lemma for_lines_no_report:
  "for_lines w m s f = (c, s') \<Longrightarrow> list_ex is_report (stdout s') = list_ex is_report (stdout s)"
proof (induction f arbitrary: s)
  case Nil
  then show ?case by simp
next
  case (Cons raw rest)
  obtain c1 s1 where step: "process_line w m s raw = (c1, s1)"
    by (cases "process_line w m s raw")
  show ?case
  proof (cases c1)
    case Normal
    with Cons step show ?thesis by (auto dest: process_line_no_report)
  next
    case (SysExit n)
    with Cons step show ?thesis by (auto dest: process_line_no_report)
  next
    case (Uncaught e)
    with Cons step show ?thesis by (auto dest: process_line_no_report)
  qed
qed

lemma startup_Normal:
  "startup w p m = (Normal, s) \<Longrightarrow>
     s = py_print (py_print (initial w) (CountingTokensFor m (the (environ w (ascii ''GCP_LOCATION''))))) Dashes
     \<and> files w p \<noteq> None"
  by (auto simp: startup_def Let_def initial_def split: if_splits option.splits)

lemma startup_no_report:
  "startup w p m = (Normal, s) \<Longrightarrow> \<not> list_ex is_report (stdout s)"
  by (auto dest!: startup_Normal simp: py_print_simps initial_def)

lemma startup_frame:
  "startup w p m = (c, s) \<Longrightarrow>
     total_tokens s = 0 \<and> total_examples s = 0 \<and> api_calls s = [] \<and> disk s = files w"
  by (auto simp: startup_def Let_def initial_def py_print_simps split: if_splits option.splits)

subsection \<open>The small world, evaluated\<close>

lemma strip_lines:
  "str_strip (hi_line @ newline) = hi_line"
  "str_strip (no_text_line @ newline) = no_text_line"
  "str_strip no_parts_line = no_parts_line"
  "str_strip hi_line = hi_line"
  "str_strip (ascii ''not json'' @ newline) = ascii ''not json''"
  "str_strip (ascii ''5'' @ newline) = ascii ''5''"
  "str_strip newline = []"
  by (simp_all add: str_strip_def hi_line_def no_text_line_def no_parts_line_def ascii_def
      newline_def is_space_def)

lemma demo_loads_values:
  "demo_loads hi_line = Inr hi_record"
  "demo_loads no_text_line = Inr no_text_record"
  "demo_loads no_parts_line = Inr no_parts_record"
  "demo_loads (ascii ''5'') = Inr (JInt 5)"
  "demo_loads (ascii ''not json'') = Inl JSONDecodeError"
  by (simp_all add: demo_loads_def hi_line_def no_text_line_def no_parts_line_def ascii_def)

lemma lines_not_empty:
  "hi_line \<noteq> []" "no_text_line \<noteq> []" "no_parts_line \<noteq> []" "ascii ''not json'' \<noteq> []"
  "ascii ''5'' \<noteq> []"
  by (simp_all add: hi_line_def no_text_line_def no_parts_line_def ascii_def)

lemma demo_world_simps:
  "files (demo_world f) default_file_path = Some (TextFile f)"
  "json_loads (demo_world f) = demo_loads"
  "count_tokens (demo_world f) k m texts = CountTokensResponse (Some 5)"
  "genai_Client (demo_world f) p l = None"
  "environ (demo_world f) = demo_environ"
  by (simp_all add: demo_world_def)

lemma demo_environ_set:
  "\<not> not_set (demo_environ (ascii ''GCP_PROJECT''))"
  "\<not> not_set (demo_environ (ascii ''GCP_LOCATION''))"
  by (simp_all add: demo_environ_def ascii_def)

lemma demo_startup:
  "startup (demo_world f) default_file_path m =
     (Normal, py_print (py_print (initial (demo_world f))
        (CountingTokensFor m (ascii ''us-central1''))) Dashes)"
proof -
  have "the (demo_environ (ascii ''GCP_LOCATION'')) = ascii ''us-central1''"
    by (simp add: demo_environ_def ascii_def)
  then show ?thesis
    by (simp add: startup_def Let_def demo_world_simps demo_environ_set initial_def)
qed

lemma demo_texts:
  "text_to_count hi_record = Inr [JStr (ascii ''hi'')]"
  "text_to_count no_text_record = Inl KeyError"
  "text_to_count no_parts_record = Inl IndexError"
  "text_to_count (JInt 5) = Inl AttributeError"
  by (simp_all add: text_to_count_def system_instruction_def hi_record_def no_text_record_def
      no_parts_record_def ascii_def)

lemma demo_hi_step:
  "process_line (demo_world f) m s (hi_line @ newline) =
     (Normal, s\<lparr>api_calls := api_calls s @ [(m, [JStr (ascii ''hi'')])],
               total_tokens := total_tokens s + 5,
               total_examples := total_examples s + 1\<rparr>)"
  by (simp add: process_line_unfold strip_lines lines_not_empty demo_world_simps
      demo_loads_values demo_texts)

subsection \<open>The function as a whole\<close>

lemma final_output_simps:
  "total_tokens (final_output p s) = total_tokens s"
  "total_examples (final_output p s) = total_examples s"
  "api_calls (final_output p s) = api_calls s"
  "disk (final_output p s) = disk s"
  "stdout (final_output p s) =
     stdout s @ [ReportRuleTop, ReportTitle, ReportRule, ReportFile p,
       ReportTotalExamples (total_examples s), ReportTotalTokens (total_tokens s),
       ReportEstimated (total_tokens s * 3), ReportRule]"
  by (simp_all add: final_output_def Let_def py_print_simps)

lemma run_cases:
  assumes "count_tokens_in_jsonl w p m = (c, s)"
  shows "(c \<noteq> Normal \<and> startup w p m = (c, s))
       \<or> (\<exists>s0 e. startup w p m = (Normal, s0) \<and> open_file s0 p = Inl e \<and> c = Uncaught e \<and> s = s0)
       \<or> (\<exists>s0 f. startup w p m = (Normal, s0) \<and> open_file s0 p = Inr f
             \<and> c \<noteq> Normal \<and> for_lines w m s0 f = (c, s))
       \<or> (\<exists>s0 f s'. startup w p m = (Normal, s0) \<and> open_file s0 p = Inr f
             \<and> for_lines w m s0 f = (Normal, s') \<and> c = Normal \<and> s = final_output p s')"
  using assms unfolding count_tokens_in_jsonl_def
  by (auto split: prod.splits control.splits sum.splits)

lemma demo_example_run:
  "count_tokens_in_jsonl (demo_world [hi_line @ newline, newline]) default_file_path default_model =
     (Normal,
      \<lparr>total_tokens = 5, total_examples = 1,
       stdout = [CountingTokensFor default_model (ascii ''us-central1''), Dashes,
                 ReportRuleTop, ReportTitle, ReportRule, ReportFile default_file_path,
                 ReportTotalExamples 1, ReportTotalTokens 5, ReportEstimated 15, ReportRule],
       api_calls = [(default_model, [JStr (ascii ''hi'')])],
       disk = files (demo_world [hi_line @ newline, newline])\<rparr>)"
proof -
  let ?w = "demo_world [hi_line @ newline, newline]"
  let ?start = "py_print (py_print (initial ?w)
        (CountingTokensFor default_model (ascii ''us-central1''))) Dashes"
  have blank: "process_line ?w default_model t newline = (Normal, t)" for t
    by (simp add: process_line_def strip_lines)
  have "open_file ?start default_file_path = Inr [hi_line @ newline, newline]"
    by (simp add: open_file_def py_print_simps initial_def demo_world_simps)
  then show ?thesis
    by (simp add: count_tokens_in_jsonl_def demo_startup demo_hi_step blank final_output_def
        Let_def py_print_def initial_def)
qed

lemma demo_bad_step:
  "process_line (demo_world f) m s (ascii ''not json'' @ newline) =
     (Normal, py_print s (SkippingLine (total_examples s + 1)))"
  by (simp add: process_line_unfold strip_lines lines_not_empty demo_world_simps demo_loads_values)

lemma demo_no_text_step:
  "process_line (demo_world f) m s (no_text_line @ newline) =
     (SysExit 1, py_print s (UnexpectedError KeyError))"
  by (simp add: process_line_unfold strip_lines lines_not_empty demo_world_simps
      demo_loads_values demo_texts)


lemma demo_record_texts:
  "record_texts (demo_world f) (hi_line @ newline) = Some [JStr (ascii ''hi'')]"
  "record_texts (demo_world f) (ascii ''not json'' @ newline) = None"
  "record_texts (demo_world f) newline = None"
  by (simp_all add: record_texts_def strip_lines lines_not_empty demo_world_simps
      demo_loads_values demo_texts)

lemma demo_line_tokens:
  "line_tokens (demo_world f) m k (hi_line @ newline) = Some 5"
  by (simp add: line_tokens_def demo_record_texts demo_world_simps)

lemma demo_lines_of: "lines_of (demo_world f) default_file_path = f"
  by (simp add: lines_of_def demo_world_simps)



subsection \<open>Calls and counters, line by line\<close>

lemma except_Normal: "except e s = (Normal, s') \<Longrightarrow> e = JSONDecodeError"
  by (cases e) auto


text \<open>One line: the calls.\<close>

lemma process_line_calls:
  assumes "process_line w m s raw = (c, s')"
  shows "api_calls s' =
           api_calls s @ (case record_texts w raw of None \<Rightarrow> [] | Some texts \<Rightarrow> [(m, texts)])"
  using assms
  by (auto simp: process_line_unfold record_texts_def py_print_simps
      split: if_splits sum.splits response.splits option.splits dest!: except_frame)



text \<open>One line: the counters.\<close>

lemma process_line_counters:
  assumes "process_line w m s raw = (c, s')"
  shows "case line_tokens w m (length (api_calls s)) raw of
           Some n \<Rightarrow> c = Normal \<and> total_examples s' = total_examples s + 1
                      \<and> total_tokens s' = total_tokens s + n
         | None \<Rightarrow> total_examples s' = total_examples s \<and> total_tokens s' = total_tokens s"
  using assms
  by (auto simp: process_line_unfold record_texts_def line_tokens_def py_print_simps
      split: if_splits sum.splits response.splits option.splits dest!: except_frame)




lemma for_lines_examples:
  "for_lines w m s f = (Normal, s') \<Longrightarrow>
     total_examples s' = total_examples s + int (records_counted w m (length (api_calls s)) f)"
proof (induction f arbitrary: s)
  case Nil
  then show ?case by simp
next
  case (Cons raw rest)
  obtain c1 s1 where step: "process_line w m s raw = (c1, s1)"
    by (cases "process_line w m s raw")
  with Cons.prems have c1: "c1 = Normal" and rest: "for_lines w m s1 rest = (Normal, s')"
    by (cases c1; simp)+
  note calls = process_line_calls [OF step]
  note counters = process_line_counters [OF step]
  show ?case
  proof (cases "record_texts w raw")
    case None
    then have "line_tokens w m (length (api_calls s)) raw = None"
      by (simp add: line_tokens_def)
    with None calls counters Cons.IH [OF rest] show ?thesis by simp
  next
    case (Some texts)
    with calls have len: "length (api_calls s1) = Suc (length (api_calls s))" by simp
    show ?thesis
      using Some counters Cons.IH [OF rest] len
      by (cases "line_tokens w m (length (api_calls s)) raw") auto
  qed
qed

lemma process_line_counted:
  assumes "line_tokens w m (length (api_calls s)) raw = Some n"
  shows "\<exists>texts. record_texts w raw = Some texts
           \<and> process_line w m s raw =
               (Normal, s\<lparr>api_calls := api_calls s @ [(m, texts)],
                          total_tokens := total_tokens s + n,
                          total_examples := total_examples s + 1\<rparr>)"
  using assms
  by (auto simp: line_tokens_def record_texts_def process_line_unfold
      split: option.splits if_splits sum.splits response.splits)

lemma for_lines_all_counted:
  assumes "\<forall>(k, raw) \<in> set (enumerate (length (api_calls s)) (filter non_blank f)).
             line_tokens w m k raw \<noteq> None"
  shows "\<exists>s'. for_lines w m s f = (Normal, s')
           \<and> total_examples s' = total_examples s + int (length (filter non_blank f))
           \<and> total_tokens s' = total_tokens s
                + sum_list (map (\<lambda>(k, raw). the (line_tokens w m k raw))
                    (enumerate (length (api_calls s)) (filter non_blank f)))
           \<and> stdout s' = stdout s"
  using assms
proof (induction f arbitrary: s)
  case Nil
  then show ?case by simp
next
  case (Cons raw rest)
  show ?case
  proof (cases "non_blank raw")
    case False
    then have "process_line w m s raw = (Normal, s)"
      by (simp add: non_blank_def process_line_def)
    with False Cons show ?thesis by simp
  next
    case True
    with Cons.prems obtain n where n: "line_tokens w m (length (api_calls s)) raw = Some n"
      by auto
    from process_line_counted [OF n] obtain texts where
      step: "process_line w m s raw =
               (Normal, s\<lparr>api_calls := api_calls s @ [(m, texts)],
                          total_tokens := total_tokens s + n,
                          total_examples := total_examples s + 1\<rparr>)"
      by blast
    let ?s1 = "s\<lparr>api_calls := api_calls s @ [(m, texts)],
                 total_tokens := total_tokens s + n,
                 total_examples := total_examples s + 1\<rparr>"
    have "\<forall>(k, raw) \<in> set (enumerate (length (api_calls ?s1)) (filter non_blank rest)).
             line_tokens w m k raw \<noteq> None"
      using Cons.prems True by simp
    from Cons.IH [OF this] obtain s' where
      "for_lines w m ?s1 rest = (Normal, s')"
      "total_examples s' = total_examples ?s1 + int (length (filter non_blank rest))"
      "total_tokens s' = total_tokens ?s1
                + sum_list (map (\<lambda>(k, raw). the (line_tokens w m k raw))
                    (enumerate (length (api_calls ?s1)) (filter non_blank rest)))"
      "stdout s' = stdout ?s1"
      by blast
    with step True n show ?thesis by simp
  qed
qed

lemma demo_non_blank:
  "non_blank (hi_line @ newline)" "\<not> non_blank newline"
  "non_blank (ascii ''not json'' @ newline)"
  by (simp_all add: non_blank_def strip_lines lines_not_empty)

lemma process_line_stops:
  assumes "process_line w m s raw = (c, s')"
  shows "(c = Normal) = (\<not> line_stops w m (length (api_calls s)) raw)"
proof (cases "str_strip raw = []")
  case True
  with assms show ?thesis by (simp add: process_line_def line_stops_def)
next
  case False
  have handler: "(fst (except e t) = Normal) = (e = JSONDecodeError)" for e t
    by (cases e) auto
  show ?thesis
  proof (cases "json_loads w (str_strip raw)")
    case (Inl e)
    with assms False handler [of e s] show ?thesis
      by (auto simp: process_line_unfold line_stops_def)
  next
    case (Inr data)
    show ?thesis
    proof (cases "text_to_count data")
      case (Inl e)
      then have "extraction_error e" by (rule text_to_count_raises)
      with assms False Inr Inl show ?thesis
        by (auto simp: process_line_unfold line_stops_def except_extraction_error)
    next
      case texts: (Inr texts)
      show ?thesis
      proof (cases "count_tokens w (length (api_calls s)) m texts")
        case (CountTokensResponse r)
        with assms False Inr texts show ?thesis
          by (cases r) (auto simp: process_line_unfold line_stops_def)
      next
        case (Raises e)
        with assms False Inr texts
          handler [of e "s\<lparr>api_calls := api_calls s @ [(m, texts)]\<rparr>"]
        show ?thesis
          by (auto simp: process_line_unfold line_stops_def)
      qed
    qed
  qed
qed

lemma for_lines_counts:
  "for_lines w m s f = (c, s') \<Longrightarrow>
     total_examples s' = total_examples s + int (length (counts_added w m (length (api_calls s)) f))
     \<and> total_tokens s' = total_tokens s + sum_list (counts_added w m (length (api_calls s)) f)"
proof (induction f arbitrary: s)
  case Nil
  then show ?case by simp
next
  case (Cons raw rest)
  obtain c1 s1 where step: "process_line w m s raw = (c1, s1)"
    by (cases "process_line w m s raw")
  note stops = process_line_stops [OF step]
  note counters = process_line_counters [OF step]
  note calls = process_line_calls [OF step]
  show ?case
  proof (cases "c1 = Normal")
    case False
    with Cons.prems step have "s' = s1"
      by (cases c1) auto
    moreover from False stops have st: "line_stops w m (length (api_calls s)) raw" by simp
    moreover from False counters have "total_examples s1 = total_examples s"
      "total_tokens s1 = total_tokens s"
      by (auto split: option.splits)
    ultimately show ?thesis by simp
  next
    case True
    with Cons.prems step have rest: "for_lines w m s1 rest = (c, s')" by simp
    from True stops have st: "\<not> line_stops w m (length (api_calls s)) raw" by simp
    have len: "length (api_calls s1) =
                 (if record_texts w raw = None then length (api_calls s)
                  else Suc (length (api_calls s)))"
      using calls by (auto split: option.splits)
    show ?thesis
      using Cons.IH [OF rest] st counters len
      by (cases "line_tokens w m (length (api_calls s)) raw") auto
  qed
qed

lemma counts_added_nonneg:
  assumes "\<forall>k m' texts n. count_tokens w k m' texts = CountTokensResponse (Some n) \<longrightarrow> 0 \<le> n"
  shows "0 \<le> sum_list (counts_added w m k f)"
proof -
  have one: "0 \<le> n" if "line_tokens w m k raw = Some n" for k raw n
    using that assms by (auto simp: line_tokens_def split: option.splits response.splits)
  have "\<forall>n \<in> set (counts_added w m k f). 0 \<le> n"
  proof (induction f arbitrary: k)
    case Nil
    then show ?case by simp
  next
    case (Cons raw rest)
    then show ?case
      by (auto split: option.splits dest: one one [OF sym])
  qed
  then show ?thesis by (simp add: sum_list_nonneg)
qed

lemma demo_record_texts_more:
  "record_texts (demo_world f) (no_text_line @ newline) = None"
  by (simp add: record_texts_def strip_lines lines_not_empty demo_world_simps
      demo_loads_values demo_texts)

lemma demo_line_stops:
  "\<not> line_stops (demo_world f) m k (hi_line @ newline)"
  "\<not> line_stops (demo_world f) m k (ascii ''not json'' @ newline)"
  "line_stops (demo_world f) m k (no_text_line @ newline)"
  "\<not> line_stops (demo_world f) m k newline"
  by (simp_all add: line_stops_def strip_lines lines_not_empty demo_world_simps
      demo_loads_values demo_texts)

lemma negative_world_step:
  "process_line negative_world m s (hi_line @ newline) =
     (Normal, s\<lparr>api_calls := api_calls s @ [(m, [JStr (ascii ''hi'')])],
               total_tokens := total_tokens s + (- 3),
               total_examples := total_examples s + 1\<rparr>)"
  by (simp add: process_line_unfold strip_lines lines_not_empty negative_world_def
      demo_world_simps demo_loads_values demo_texts)

lemma demo_line_tokens_more:
  "line_tokens (demo_world f) m k (ascii ''not json'' @ newline) = None"
  "line_tokens (demo_world f) m k (no_text_line @ newline) = None"
  "line_tokens (demo_world f) m k newline = None"
  by (simp_all add: line_tokens_def demo_record_texts demo_record_texts_more)

subsection \<open>A file of well-formed records\<close>

text \<open>
  Claim C1. Take a run whose file exists, whose two environment variables are set and
  whose client is constructed. If every non-blank line of the file is a well-formed
  record (it decodes and field extraction runs through) and every call to the service
  returns a count, then the function returns normally, \<open>total_examples\<close> is the number
  \<open>N\<close> of non-blank lines, \<open>total_tokens\<close> is the sum of the counts returned for
  them (the \<open>k\<close>-th non-blank line is the \<open>k\<close>-th call), and the report printed
  shows these two numbers.
\<close>

theorem well_formed_file_is_counted:
  assumes "files w file_path = Some (TextFile f)"
    and "\<not> not_set (environ w (ascii ''GCP_PROJECT''))"
    and "\<not> not_set (environ w (ascii ''GCP_LOCATION''))"
    and "genai_Client w (the (environ w (ascii ''GCP_PROJECT'')))
           (the (environ w (ascii ''GCP_LOCATION''))) = None"
    and "\<forall>raw \<in> set f. non_blank raw \<longrightarrow> record_texts w raw \<noteq> None"
    and "\<forall>(k, raw) \<in> set (enumerate 0 (filter non_blank f)).
           \<exists>n. count_tokens w k model_name (the (record_texts w raw)) = CountTokensResponse (Some n)"
  shows "\<exists>s. count_tokens_in_jsonl w file_path model_name = (Normal, s)
           \<and> total_examples s = int (length (filter non_blank f))
           \<and> total_tokens s =
               sum_list (map (\<lambda>(k, raw). the (line_tokens w model_name k raw))
                 (enumerate 0 (filter non_blank f)))
           \<and> stdout s =
               [CountingTokensFor model_name (the (environ w (ascii ''GCP_LOCATION''))), Dashes,
                ReportRuleTop, ReportTitle, ReportRule, ReportFile file_path,
                ReportTotalExamples (total_examples s), ReportTotalTokens (total_tokens s),
                ReportEstimated (total_tokens s * 3), ReportRule]"
proof -
  let ?start = "py_print (py_print (initial w)
      (CountingTokensFor model_name (the (environ w (ascii ''GCP_LOCATION''))))) Dashes"
  have start: "startup w file_path model_name = (Normal, ?start)"
    using assms(1-4) by (simp add: startup_def Let_def initial_def)
  have opened: "open_file ?start file_path = Inr f"
    using assms(1) by (simp add: open_file_def py_print_simps initial_def)
  have "line_tokens w model_name k raw \<noteq> None"
    if "(k, raw) \<in> set (enumerate 0 (filter non_blank f))" for k raw
  proof -
    from that have "raw \<in> set f" "non_blank raw"
      by (auto simp: in_set_enumerate_eq dest: nth_mem)
    with assms(5) obtain texts where "record_texts w raw = Some texts" by auto
    with assms(6) that show ?thesis by (auto simp: line_tokens_def)
  qed
  then have "\<forall>(k, raw) \<in> set (enumerate (length (api_calls ?start)) (filter non_blank f)).
               line_tokens w model_name k raw \<noteq> None"
    by (auto simp: py_print_simps initial_def)
  from for_lines_all_counted [OF this] obtain s' where
    loop: "for_lines w model_name ?start f = (Normal, s')"
    and ex: "total_examples s' = total_examples ?start + int (length (filter non_blank f))"
    and tok: "total_tokens s' = total_tokens ?start
                + sum_list (map (\<lambda>(k, raw). the (line_tokens w model_name k raw))
                    (enumerate (length (api_calls ?start)) (filter non_blank f)))"
    and out: "stdout s' = stdout ?start"
    by blast
  have run: "count_tokens_in_jsonl w file_path model_name = (Normal, final_output file_path s')"
    using start opened loop by (simp add: count_tokens_in_jsonl_def)
  show ?thesis
    using run ex tok out by (simp add: final_output_simps py_print_simps initial_def)
qed

theorem well_formed_file_is_counted_witness:
  "filter non_blank [hi_line @ newline, newline, hi_line @ newline] = [hi_line @ newline, hi_line @ newline]
   \<and> fst (count_tokens_in_jsonl (demo_world [hi_line @ newline, newline, hi_line @ newline])
        default_file_path default_model) = Normal
   \<and> total_examples (snd (count_tokens_in_jsonl (demo_world [hi_line @ newline, newline, hi_line @ newline])
        default_file_path default_model)) = 2
   \<and> total_tokens (snd (count_tokens_in_jsonl (demo_world [hi_line @ newline, newline, hi_line @ newline])
        default_file_path default_model)) = 5 + 5
   \<and> stdout (snd (count_tokens_in_jsonl (demo_world [hi_line @ newline, newline, hi_line @ newline])
        default_file_path default_model))
      = [CountingTokensFor default_model (ascii ''us-central1''), Dashes,
         ReportRuleTop, ReportTitle, ReportRule, ReportFile default_file_path,
         ReportTotalExamples 2, ReportTotalTokens 10, ReportEstimated 30, ReportRule]"
proof -
  let ?f = "[hi_line @ newline, newline, hi_line @ newline]"
  let ?w = "demo_world ?f"
  have nb: "filter non_blank ?f = [hi_line @ newline, hi_line @ newline]"
    by (simp add: demo_non_blank)
  have loc: "the (environ ?w (ascii ''GCP_LOCATION'')) = ascii ''us-central1''"
    by (simp add: demo_world_simps demo_environ_def ascii_def)
  have a1: "files ?w default_file_path = Some (TextFile ?f)"
    by (simp add: demo_world_simps)
  have a2: "\<not> not_set (environ ?w (ascii ''GCP_PROJECT''))"
    by (simp add: demo_world_simps demo_environ_set)
  have a3: "\<not> not_set (environ ?w (ascii ''GCP_LOCATION''))"
    by (simp add: demo_world_simps demo_environ_set)
  have a4: "genai_Client ?w (the (environ ?w (ascii ''GCP_PROJECT'')))
           (the (environ ?w (ascii ''GCP_LOCATION''))) = None"
    by (simp add: demo_world_simps)
  have a5: "\<forall>raw \<in> set ?f. non_blank raw \<longrightarrow> record_texts ?w raw \<noteq> None"
    by (simp add: demo_non_blank demo_record_texts)
  have a6: "\<forall>(k, raw) \<in> set (enumerate 0 (filter non_blank ?f)).
           \<exists>n. count_tokens ?w k default_model (the (record_texts ?w raw)) = CountTokensResponse (Some n)"
    by (simp add: demo_world_simps)
  from well_formed_file_is_counted [OF a1 a2 a3 a4 a5 a6]
  show ?thesis
    by (auto simp: demo_non_blank loc demo_line_tokens)
qed

subsection \<open>The estimate for three epochs\<close>

text \<open>
  Claim C2. A run that returns normally has printed, last, the eight lines of the report,
  and the estimate shown is three times the total shown, which is the value of
  \<open>total_tokens\<close>. A run that ends otherwise has printed no line of the report. In
  every run, a printed estimate is three times a printed total.
\<close>

theorem estimate_is_three_times_total:
  assumes "count_tokens_in_jsonl w file_path model_name = (c, s)"
  shows "(c = Normal \<longrightarrow>
           (\<exists>before. \<not> list_ex is_report before
              \<and> stdout s = before @ [ReportRuleTop, ReportTitle, ReportRule, ReportFile file_path,
                   ReportTotalExamples (total_examples s), ReportTotalTokens (total_tokens s),
                   ReportEstimated (3 * total_tokens s), ReportRule]))
         \<and> (c \<noteq> Normal \<longrightarrow> \<not> list_ex is_report (stdout s))
         \<and> (\<forall>t e. ReportTotalTokens t \<in> set (stdout s) \<and> ReportEstimated e \<in> set (stdout s)
               \<longrightarrow> e = 3 * t)"
proof -
  have startup_quiet: "\<not> list_ex is_report (stdout s')" if "startup w file_path model_name = (c', s')" for c' s'
    using that
    by (auto simp: startup_def Let_def initial_def py_print_simps split: if_splits option.splits)
  from run_cases [OF assms] consider
      (early) "c \<noteq> Normal" "startup w file_path model_name = (c, s)"
    | (unopened) s0 e where "startup w file_path model_name = (Normal, s0)" "c = Uncaught e" "s = s0"
    | (aborted) s0 f where "startup w file_path model_name = (Normal, s0)" "c \<noteq> Normal"
        "for_lines w model_name s0 f = (c, s)"
    | (reported) s0 f s' where "startup w file_path model_name = (Normal, s0)"
        "for_lines w model_name s0 f = (Normal, s')" "c = Normal" "s = final_output file_path s'"
    by blast
  then show ?thesis
  proof cases
    case early
    then have "\<not> list_ex is_report (stdout s)" by (auto dest: startup_quiet)
    then have "\<And>t. ReportTotalTokens t \<notin> set (stdout s)"
      by (auto simp: list_ex_iff)
    with early \<open>\<not> list_ex is_report (stdout s)\<close> show ?thesis by simp
  next
    case unopened
    then have "\<not> list_ex is_report (stdout s)" by (auto dest: startup_quiet)
    then have "\<And>t. ReportTotalTokens t \<notin> set (stdout s)"
      by (auto simp: list_ex_iff)
    with unopened \<open>\<not> list_ex is_report (stdout s)\<close> show ?thesis by simp
  next
    case aborted
    then have "\<not> list_ex is_report (stdout s)"
      using startup_quiet for_lines_no_report by blast
    then have "\<And>t. ReportTotalTokens t \<notin> set (stdout s)"
      by (auto simp: list_ex_iff)
    with aborted \<open>\<not> list_ex is_report (stdout s)\<close> show ?thesis by simp
  next
    case reported
    then have quiet: "\<not> list_ex is_report (stdout s')"
      using startup_quiet for_lines_no_report by blast
    then have none: "\<And>t. ReportTotalTokens t \<notin> set (stdout s')" "\<And>t. ReportEstimated t \<notin> set (stdout s')"
      by (auto simp: list_ex_iff)
    have out: "stdout s = stdout s' @ [ReportRuleTop, ReportTitle, ReportRule, ReportFile file_path,
                   ReportTotalExamples (total_examples s), ReportTotalTokens (total_tokens s),
                   ReportEstimated (3 * total_tokens s), ReportRule]"
      using reported(4) by (simp add: final_output_simps)
    have "\<forall>t e. ReportTotalTokens t \<in> set (stdout s) \<and> ReportEstimated e \<in> set (stdout s)
               \<longrightarrow> e = 3 * t"
      using none by (auto simp: out)
    with quiet out reported(3) show ?thesis by blast
  qed
qed

theorem estimate_is_three_times_total_witness:
  "fst (count_tokens_in_jsonl (demo_world [hi_line @ newline, newline]) default_file_path default_model)
     = Normal
   \<and> stdout (snd (count_tokens_in_jsonl (demo_world [hi_line @ newline, newline])
        default_file_path default_model))
     = [CountingTokensFor default_model (ascii ''us-central1''), Dashes] @
       [ReportRuleTop, ReportTitle, ReportRule, ReportFile default_file_path,
        ReportTotalExamples 1, ReportTotalTokens 5, ReportEstimated (3 * 5), ReportRule]"
  using estimate_is_three_times_total [OF demo_example_run]
  by (simp add: demo_example_run)

subsection \<open>Lines that are not JSON\<close>

text \<open>
  Claim C3. A non-blank line whose decoding raises \<open>JSONDecodeError\<close> is skipped: the
  line step runs through, both counters and the calls made stay as they were, one
  warning is printed, and the loop goes on with the lines that follow.
\<close>

theorem invalid_json_line_is_skipped:
  assumes "str_strip raw \<noteq> []"
    and "json_loads w (str_strip raw) = Inl JSONDecodeError"
  shows "\<exists>s'. process_line w model_name s raw = (Normal, s')
           \<and> total_examples s' = total_examples s
           \<and> total_tokens s' = total_tokens s
           \<and> api_calls s' = api_calls s
           \<and> stdout s' = stdout s @ [SkippingLine (total_examples s + 1)]
           \<and> for_lines w model_name s (raw # rest) = for_lines w model_name s' rest"
  using assms by (simp add: process_line_unfold py_print_simps)

theorem invalid_json_line_is_skipped_witness:
  "str_strip (ascii ''not json'' @ newline) \<noteq> []
   \<and> json_loads (demo_world []) (str_strip (ascii ''not json'' @ newline)) = Inl JSONDecodeError
   \<and> (\<exists>s'. process_line (demo_world []) default_model (initial (demo_world []))
              (ascii ''not json'' @ newline) = (Normal, s')
         \<and> total_examples s' = 0 \<and> total_tokens s' = 0 \<and> api_calls s' = []
         \<and> stdout s' = [SkippingLine 1]
         \<and> for_lines (demo_world []) default_model (initial (demo_world []))
              [ascii ''not json'' @ newline, hi_line] =
            for_lines (demo_world []) default_model s' [hi_line])"
proof -
  have a: "str_strip (ascii ''not json'' @ newline) \<noteq> []"
    by (simp add: strip_lines lines_not_empty)
  have b: "json_loads (demo_world []) (str_strip (ascii ''not json'' @ newline)) = Inl JSONDecodeError"
    by (simp add: strip_lines demo_world_simps demo_loads_values)
  show ?thesis
    using a b invalid_json_line_is_skipped [OF a b, of default_model "initial (demo_world [])" "[hi_line]"]
    by (simp add: initial_def)
qed

subsection \<open>Blank lines\<close>

text \<open>
  Claim C4. A line that is empty after trimming whitespace changes nothing: the line
  step returns the state it was given, so neither counter moves, no call is added to
  the calls made and nothing is printed.
\<close>

theorem blank_line_is_ignored:
  "str_strip raw = [] \<Longrightarrow> process_line w model_name s raw = (Normal, s)"
  by (simp add: process_line_def)

theorem blank_line_is_ignored_witness:
  "str_strip (ascii ''   '' @ newline) = []
   \<and> process_line (demo_world []) default_model (initial (demo_world [])) (ascii ''   '' @ newline)
       = (Normal, initial (demo_world []))"
  using blank_line_is_ignored [of "ascii ''   '' @ newline" "demo_world []" default_model "initial (demo_world [])"]
  by (simp add: str_strip_def ascii_def newline_def is_space_def)

subsection \<open>Missing file, missing environment\<close>

text \<open>
  Claim C5. When the path holds no file, or \<open>GCP_PROJECT\<close> or \<open>GCP_LOCATION\<close> is
  unset or empty, the function exits with code 1. At that moment no call has been made,
  both counters are zero, and the only output is the error message: the final state is
  the initial one with that output, so no line of the file has been looked at.
\<close>

theorem missing_file_or_environment_aborts:
  assumes "files w file_path = None
           \<or> not_set (environ w (ascii ''GCP_PROJECT''))
           \<or> not_set (environ w (ascii ''GCP_LOCATION''))"
  shows "\<exists>s. count_tokens_in_jsonl w file_path model_name = (SysExit 1, s)
           \<and> exit_code (fst (count_tokens_in_jsonl w file_path model_name)) \<noteq> 0
           \<and> api_calls s = [] \<and> total_examples s = 0 \<and> total_tokens s = 0
           \<and> stdout s = (if files w file_path = None then [DatasetNotFound file_path]
                          else [EnvMissing, EnvHint])
           \<and> s = (initial w)\<lparr>stdout := stdout s\<rparr>"
proof (cases "files w file_path = None")
  case True
  then have "startup w file_path model_name = (SysExit 1, py_print (initial w) (DatasetNotFound file_path))"
    by (simp add: startup_def initial_def)
  then show ?thesis
    using True by (simp add: count_tokens_in_jsonl_def py_print_def initial_def)
next
  case False
  with assms have "not_set (environ w (ascii ''GCP_PROJECT'')) \<or> not_set (environ w (ascii ''GCP_LOCATION''))"
    by simp
  with False have "startup w file_path model_name = (SysExit 1, py_print (py_print (initial w) EnvMissing) EnvHint)"
    by (auto simp: startup_def initial_def Let_def)
  then show ?thesis
    using False by (simp add: count_tokens_in_jsonl_def py_print_def initial_def)
qed

theorem missing_file_or_environment_aborts_witness:
  "count_tokens_in_jsonl (demo_world [hi_line]) (ascii ''nowhere.jsonl'') default_model
     = (SysExit 1, (initial (demo_world [hi_line]))\<lparr>stdout := [DatasetNotFound (ascii ''nowhere.jsonl'')]\<rparr>)
   \<and> count_tokens_in_jsonl ((demo_world [hi_line])\<lparr>environ := (\<lambda>name. None)\<rparr>)
        default_file_path default_model
     = (SysExit 1, (initial (demo_world [hi_line]))\<lparr>stdout := [EnvMissing, EnvHint]\<rparr>)
   \<and> count_tokens_in_jsonl ((demo_world [hi_line])\<lparr>environ := (\<lambda>name. Some [])\<rparr>)
        default_file_path default_model
     = (SysExit 1, (initial (demo_world [hi_line]))\<lparr>stdout := [EnvMissing, EnvHint]\<rparr>)"
proof -
  have a: "files (demo_world [hi_line]) (ascii ''nowhere.jsonl'') = None"
    by (simp add: demo_world_def default_file_path_def ascii_def)
  have b: "not_set (environ ((demo_world [hi_line])\<lparr>environ := (\<lambda>name. None)\<rparr>) (ascii ''GCP_PROJECT''))"
    by simp
  have c: "not_set (environ ((demo_world [hi_line])\<lparr>environ := (\<lambda>name. Some [])\<rparr>) (ascii ''GCP_LOCATION''))"
    by simp
  have d: "files ((demo_world [hi_line])\<lparr>environ := e\<rparr>) default_file_path \<noteq> None" for e
    by (simp add: demo_world_def)
  show ?thesis
    using missing_file_or_environment_aborts [OF disjI1, OF a, of default_model]
      missing_file_or_environment_aborts [OF disjI2, OF disjI1, OF b, of default_file_path default_model]
      missing_file_or_environment_aborts [OF disjI2, OF disjI2, OF c, of default_file_path default_model]
      a d
    by (auto simp: initial_def demo_world_def)
qed

subsection \<open>Calls to the service\<close>




subsection \<open>The number in the warning\<close>

text \<open>
  Claim C7. When the loop reaches a non-blank line whose decoding raises
  \<open>JSONDecodeError\<close>, the line printed is the warning with the number one plus the
  number of records counted so far (the value of \<open>total_examples\<close>), whatever the
  position of the line in the file. In the witness the third line of a file is
  announced as line 2.
\<close>

theorem warning_names_ordinal_among_counted_records:
  assumes "startup w file_path model_name = (Normal, s0)"
    and "for_lines w model_name s0 before = (Normal, s)"
    and "str_strip raw \<noteq> []"
    and "json_loads w (str_strip raw) = Inl JSONDecodeError"
  shows "\<exists>s'. process_line w model_name s raw = (Normal, s')
           \<and> stdout s' =
               stdout s @ [SkippingLine (int (records_counted w model_name 0 before) + 1)]
           \<and> total_examples s = int (records_counted w model_name 0 before)
           \<and> total_examples s' = total_examples s
           \<and> total_tokens s' = total_tokens s
           \<and> api_calls s' = api_calls s"
proof -
  have "total_examples s = int (records_counted w model_name 0 before)"
    using for_lines_examples [OF assms(2)] startup_frame [OF assms(1)] by simp
  then show ?thesis
    using assms(3,4) by (simp add: process_line_unfold py_print_simps)
qed

theorem warning_names_ordinal_among_counted_records_witness:
  "records_counted (demo_world []) default_model 0
      [hi_line @ newline, ascii ''not json'' @ newline] = 1
   \<and> stdout (snd (for_lines (demo_world []) default_model
               (snd (startup (demo_world []) default_file_path default_model))
               [hi_line @ newline, ascii ''not json'' @ newline]))
      = [CountingTokensFor default_model (ascii ''us-central1''), Dashes, SkippingLine 2]
   \<and> fst (process_line (demo_world []) default_model
        (snd (for_lines (demo_world []) default_model
               (snd (startup (demo_world []) default_file_path default_model))
               [hi_line @ newline, ascii ''not json'' @ newline]))
        (ascii ''not json'' @ newline)) = Normal
   \<and> stdout (snd (process_line (demo_world []) default_model
        (snd (for_lines (demo_world []) default_model
               (snd (startup (demo_world []) default_file_path default_model))
               [hi_line @ newline, ascii ''not json'' @ newline]))
        (ascii ''not json'' @ newline)))
      = [CountingTokensFor default_model (ascii ''us-central1''), Dashes, SkippingLine 2,
         SkippingLine 2]
   \<and> length [hi_line @ newline, ascii ''not json'' @ newline] + 1 = 3"
proof -
  let ?w = "demo_world []"
  let ?start = "snd (startup ?w default_file_path default_model)"
  let ?before = "[hi_line @ newline, ascii ''not json'' @ newline]"
  let ?mid = "snd (for_lines ?w default_model ?start ?before)"
  have a: "startup ?w default_file_path default_model = (Normal, ?start)"
    by (simp add: demo_startup)
  have b: "for_lines ?w default_model ?start ?before = (Normal, ?mid)"
    by (simp add: demo_hi_step demo_bad_step)
  have c: "str_strip (ascii ''not json'' @ newline) \<noteq> []"
    by (simp add: strip_lines lines_not_empty)
  have d: "json_loads ?w (str_strip (ascii ''not json'' @ newline)) = Inl JSONDecodeError"
    by (simp add: strip_lines demo_world_simps demo_loads_values)
  have e: "records_counted ?w default_model 0 ?before = 1"
    by (simp add: demo_record_texts demo_line_tokens)
  have f: "stdout ?mid = [CountingTokensFor default_model (ascii ''us-central1''), Dashes, SkippingLine 2]"
    by (simp add: demo_startup demo_hi_step demo_bad_step py_print_simps initial_def)
  from warning_names_ordinal_among_counted_records [OF a b c d] obtain s' where
    "process_line ?w default_model ?mid (ascii ''not json'' @ newline) = (Normal, s')"
    "stdout s' = stdout ?mid @ [SkippingLine (int (records_counted ?w default_model 0 ?before) + 1)]"
    by blast
  with e f show ?thesis by simp
qed

subsection \<open>The path of the dataset\<close>

text \<open>
  Claim C8. With no positional argument the path is \<open>data/training.jsonl\<close>; with an
  argument that is empty or all whitespace it is that default too; any other argument is
  used as it is. \<open>main\<close> hands this path to \<open>count_tokens_in_jsonl\<close>.
\<close>

theorem file_to_check_default:
  "file_to_check None = default_file_path
   \<and> file_to_check (Some p) = (if list_all is_space p then default_file_path else p)
   \<and> main w arg_file_path arg_model =
        count_tokens_in_jsonl w (file_to_check arg_file_path)
          (case arg_model of None \<Rightarrow> default_model | Some m \<Rightarrow> m)"
  by (cases p) (auto simp: file_to_check_def str_isspace_def main_def)

theorem file_to_check_default_witness:
  "file_to_check None = ascii ''data/training.jsonl''
   \<and> file_to_check (Some []) = ascii ''data/training.jsonl''
   \<and> file_to_check (Some (ascii ''  '')) = ascii ''data/training.jsonl''
   \<and> file_to_check (Some (ascii ''my data.jsonl'')) = ascii ''my data.jsonl''"
  using file_to_check_default [of "[]" "demo_world []" None None]
    file_to_check_default [of "ascii ''  ''" "demo_world []" None None]
    file_to_check_default [of "ascii ''my data.jsonl''" "demo_world []" None None]
  by (simp add: default_file_path_def ascii_def is_space_def)

subsection \<open>The two counters\<close>

text \<open>
  Claim C9, as the specification states it, says that neither counter is ever
  decremented. Line 70 adds to \<open>total_tokens\<close> whatever count the response carries and
  checks nothing: with a service that answers \<open>-3\<close>, the first record takes
  \<open>total_tokens\<close> from 0 to \<open>-3\<close>.
\<close>

theorem total_tokens_never_decremented_counterexample:
  "total_tokens (initial negative_world) = 0
   \<and> count_tokens negative_world 0 default_model [JStr (ascii ''hi'')] = CountTokensResponse (Some (- 3))
   \<and> total_tokens (snd (process_line negative_world default_model (initial negative_world)
        (hi_line @ newline))) = - 3
   \<and> total_tokens (snd (process_line negative_world default_model (initial negative_world)
        (hi_line @ newline))) < total_tokens (initial negative_world)"
  by (simp add: negative_world_step) (simp add: initial_def negative_world_def)

text \<open>
  Claim C9, amended. Both counters are zero when the function starts to read the file
  (and at every earlier exit). A line step changes them only when the line is a record
  that is parsed and counted, that is, when the service answers the line's call with a
  count \<open>n\<close>: then \<open>total_examples\<close> grows by one and \<open>total_tokens\<close> by \<open>n\<close>,
  once, and the loop goes on; any other line leaves both as they are. So after the loop,
  however it ends, and at the end of the run, \<open>total_examples\<close> has grown by the
  number of records counted up to there and \<open>total_tokens\<close> by the sum of their
  counts. \<open>total_examples\<close> never goes down; \<open>total_tokens\<close> never goes down as long
  as the counts that the service returns are not negative. The final report changes
  neither counter.
\<close>

theorem counters_start_at_zero_and_grow_by_the_counts:
  "(startup w file_path model_name = (c0, s0) \<longrightarrow> total_tokens s0 = 0 \<and> total_examples s0 = 0)
   \<and> (process_line w model_name s raw = (c, s') \<longrightarrow>
        (c = Normal) = (\<not> line_stops w model_name (length (api_calls s)) raw)
        \<and> (case line_tokens w model_name (length (api_calls s)) raw of
             Some n \<Rightarrow> c = Normal \<and> total_examples s' = total_examples s + 1
                        \<and> total_tokens s' = total_tokens s + n
           | None \<Rightarrow> total_examples s' = total_examples s \<and> total_tokens s' = total_tokens s))
   \<and> (for_lines w model_name s f = (c1, s1) \<longrightarrow>
        total_examples s1 =
          total_examples s + int (length (counts_added w model_name (length (api_calls s)) f))
        \<and> total_tokens s1 =
          total_tokens s + sum_list (counts_added w model_name (length (api_calls s)) f)
        \<and> total_examples s \<le> total_examples s1
        \<and> ((\<forall>k m texts n. count_tokens w k m texts = CountTokensResponse (Some n) \<longrightarrow> 0 \<le> n)
             \<longrightarrow> total_tokens s \<le> total_tokens s1))
   \<and> (startup w file_path model_name = (Normal, s0)
        \<and> count_tokens_in_jsonl w file_path model_name = (c2, s2) \<longrightarrow>
        total_examples s2 = int (length (counts_added w model_name 0 (lines_of w file_path)))
        \<and> total_tokens s2 = sum_list (counts_added w model_name 0 (lines_of w file_path)))
   \<and> total_tokens (final_output file_path s) = total_tokens s
   \<and> total_examples (final_output file_path s) = total_examples s"
proof -
  have start: "total_tokens s0 = 0 \<and> total_examples s0 = 0"
    if "startup w file_path model_name = (c0, s0)"
    using startup_frame [OF that] by simp
  have step: "(c = Normal) = (\<not> line_stops w model_name (length (api_calls s)) raw)
        \<and> (case line_tokens w model_name (length (api_calls s)) raw of
             Some n \<Rightarrow> c = Normal \<and> total_examples s' = total_examples s + 1
                        \<and> total_tokens s' = total_tokens s + n
           | None \<Rightarrow> total_examples s' = total_examples s \<and> total_tokens s' = total_tokens s)"
    if "process_line w model_name s raw = (c, s')"
    using process_line_stops [OF that] process_line_counters [OF that] by simp
  have loop: "total_examples s1 =
          total_examples s + int (length (counts_added w model_name (length (api_calls s)) f))
        \<and> total_tokens s1 =
          total_tokens s + sum_list (counts_added w model_name (length (api_calls s)) f)
        \<and> total_examples s \<le> total_examples s1
        \<and> ((\<forall>k m texts n. count_tokens w k m texts = CountTokensResponse (Some n) \<longrightarrow> 0 \<le> n)
             \<longrightarrow> total_tokens s \<le> total_tokens s1)"
    if "for_lines w model_name s f = (c1, s1)"
    using for_lines_counts [OF that]
      counts_added_nonneg [of w model_name "length (api_calls s)" f]
    by auto
  have run: "total_examples s2 = int (length (counts_added w model_name 0 (lines_of w file_path)))
        \<and> total_tokens s2 = sum_list (counts_added w model_name 0 (lines_of w file_path))"
    if st: "startup w file_path model_name = (Normal, s0)"
      and r: "count_tokens_in_jsonl w file_path model_name = (c2, s2)"
  proof -
    note fr = startup_frame [OF st]
    show ?thesis
    proof (cases "open_file s0 file_path")
      case (Inl e)
      with fr have "lines_of w file_path = []"
        by (auto simp: open_file_def lines_of_def split: option.splits py_file.splits)
      moreover from st r Inl have "s2 = s0"
        by (simp add: count_tokens_in_jsonl_def)
      ultimately show ?thesis using fr by simp
    next
      case (Inr g)
      with fr have lines: "lines_of w file_path = g"
        by (auto simp: open_file_def lines_of_def split: option.splits py_file.splits)
      obtain c3 s3 where l: "for_lines w model_name s0 g = (c3, s3)"
        by (cases "for_lines w model_name s0 g")
      have "total_examples s2 = total_examples s3 \<and> total_tokens s2 = total_tokens s3"
        using st r Inr l
        by (cases c3) (auto simp: count_tokens_in_jsonl_def final_output_simps)
      with for_lines_counts [OF l] fr lines show ?thesis by simp
    qed
  qed
  have c1: "startup w file_path model_name = (c0, s0) \<longrightarrow>
              total_tokens s0 = 0 \<and> total_examples s0 = 0"
    using start by blast
  have c2: "process_line w model_name s raw = (c, s') \<longrightarrow>
        (c = Normal) = (\<not> line_stops w model_name (length (api_calls s)) raw)
        \<and> (case line_tokens w model_name (length (api_calls s)) raw of
             Some n \<Rightarrow> c = Normal \<and> total_examples s' = total_examples s + 1
                        \<and> total_tokens s' = total_tokens s + n
           | None \<Rightarrow> total_examples s' = total_examples s \<and> total_tokens s' = total_tokens s)"
    using step by blast
  have c3: "for_lines w model_name s f = (c1, s1) \<longrightarrow>
        total_examples s1 =
          total_examples s + int (length (counts_added w model_name (length (api_calls s)) f))
        \<and> total_tokens s1 =
          total_tokens s + sum_list (counts_added w model_name (length (api_calls s)) f)
        \<and> total_examples s \<le> total_examples s1
        \<and> ((\<forall>k m texts n. count_tokens w k m texts = CountTokensResponse (Some n) \<longrightarrow> 0 \<le> n)
             \<longrightarrow> total_tokens s \<le> total_tokens s1)"
    using loop by blast
  have c4: "startup w file_path model_name = (Normal, s0)
        \<and> count_tokens_in_jsonl w file_path model_name = (c2, s2) \<longrightarrow>
        total_examples s2 = int (length (counts_added w model_name 0 (lines_of w file_path)))
        \<and> total_tokens s2 = sum_list (counts_added w model_name 0 (lines_of w file_path))"
    using run by blast
  have c5: "total_tokens (final_output file_path s) = total_tokens s"
    by (simp add: final_output_simps)
  have c6: "total_examples (final_output file_path s) = total_examples s"
    by (simp add: final_output_simps)
  show ?thesis
    by (rule conjI [OF c1 conjI [OF c2 conjI [OF c3 conjI [OF c4 conjI [OF c5 c6]]]]])
qed

theorem counters_start_at_zero_and_grow_by_the_counts_witness:
  "total_tokens (snd (startup (demo_world []) default_file_path default_model)) = 0
   \<and> total_examples (snd (startup (demo_world []) default_file_path default_model)) = 0
   \<and> fst (process_line (demo_world []) default_model (initial (demo_world [])) (hi_line @ newline))
      = Normal
   \<and> total_examples (snd (process_line (demo_world []) default_model (initial (demo_world []))
        (hi_line @ newline))) = 1
   \<and> total_tokens (snd (process_line (demo_world []) default_model (initial (demo_world []))
        (hi_line @ newline))) = 5
   \<and> counts_added (demo_world []) default_model 0
        [hi_line @ newline, ascii ''not json'' @ newline, hi_line @ newline] = [5, 5]
   \<and> fst (for_lines (demo_world []) default_model (initial (demo_world []))
        [hi_line @ newline, ascii ''not json'' @ newline, hi_line @ newline]) = Normal
   \<and> total_examples (snd (for_lines (demo_world []) default_model (initial (demo_world []))
        [hi_line @ newline, ascii ''not json'' @ newline, hi_line @ newline])) = 2
   \<and> total_tokens (snd (for_lines (demo_world []) default_model (initial (demo_world []))
        [hi_line @ newline, ascii ''not json'' @ newline, hi_line @ newline])) = 10
   \<and> counts_added (demo_world []) default_model 0
        [hi_line @ newline, no_text_line @ newline, hi_line @ newline] = [5]
   \<and> fst (for_lines (demo_world []) default_model (initial (demo_world []))
        [hi_line @ newline, no_text_line @ newline, hi_line @ newline]) = SysExit 1
   \<and> total_examples (snd (for_lines (demo_world []) default_model (initial (demo_world []))
        [hi_line @ newline, no_text_line @ newline, hi_line @ newline])) = 1
   \<and> total_tokens (snd (for_lines (demo_world []) default_model (initial (demo_world []))
        [hi_line @ newline, no_text_line @ newline, hi_line @ newline])) = 5
   \<and> total_examples (snd (count_tokens_in_jsonl (demo_world [hi_line @ newline, newline])
        default_file_path default_model)) = 1
   \<and> total_tokens (snd (count_tokens_in_jsonl (demo_world [hi_line @ newline, newline])
        default_file_path default_model)) = 5"
proof -
  let ?w = "demo_world []"
  let ?s = "initial ?w"
  let ?m = default_model
  let ?f1 = "[hi_line @ newline, ascii ''not json'' @ newline, hi_line @ newline]"
  let ?f2 = "[hi_line @ newline, no_text_line @ newline, hi_line @ newline]"
  let ?v = "demo_world [hi_line @ newline, newline]"
  have zero: "total_tokens ?s = 0" "total_examples ?s = 0" "api_calls ?s = []"
    by (simp_all add: initial_def)
  have k1: "counts_added ?w ?m 0 ?f1 = [5, 5]"
    by (simp add: demo_line_stops demo_line_tokens demo_line_tokens_more demo_record_texts)
  have k2: "counts_added ?w ?m 0 ?f2 = [5]"
    by (simp add: demo_line_stops demo_line_tokens demo_record_texts)
  have k3: "counts_added ?v ?m 0 (lines_of ?v default_file_path) = [5]"
    by (simp add: demo_lines_of demo_line_stops demo_line_tokens demo_line_tokens_more
        demo_record_texts)
  have e1: "fst (process_line ?w ?m ?s (hi_line @ newline)) = Normal"
    by (simp add: demo_hi_step)
  have e2: "fst (for_lines ?w ?m ?s ?f1) = Normal"
    by (simp add: demo_hi_step demo_bad_step)
  have e3: "fst (for_lines ?w ?m ?s ?f2) = SysExit 1"
    by (simp add: demo_hi_step demo_no_text_step)
  have st: "startup ?v default_file_path ?m = (Normal, snd (startup ?v default_file_path ?m))"
    by (simp add: demo_startup)
  note t1 = counters_start_at_zero_and_grow_by_the_counts
        [of ?w default_file_path ?m
            "fst (startup ?w default_file_path ?m)" "snd (startup ?w default_file_path ?m)"
            ?s "hi_line @ newline"
            "fst (process_line ?w ?m ?s (hi_line @ newline))"
            "snd (process_line ?w ?m ?s (hi_line @ newline))"
            ?f1 "fst (for_lines ?w ?m ?s ?f1)" "snd (for_lines ?w ?m ?s ?f1)"
            Normal ?s]
  note t2 = counters_start_at_zero_and_grow_by_the_counts
        [of ?w default_file_path ?m Normal ?s
            ?s "hi_line @ newline" Normal ?s
            ?f2 "fst (for_lines ?w ?m ?s ?f2)" "snd (for_lines ?w ?m ?s ?f2)"
            Normal ?s]
  note t3 = counters_start_at_zero_and_grow_by_the_counts
        [of ?v default_file_path ?m Normal "snd (startup ?v default_file_path ?m)"
            ?s "hi_line @ newline" Normal ?s
            "[]" Normal ?s
            "fst (count_tokens_in_jsonl ?v default_file_path ?m)"
            "snd (count_tokens_in_jsonl ?v default_file_path ?m)"]
  have p1: "startup ?w default_file_path ?m =
              (fst (startup ?w default_file_path ?m), snd (startup ?w default_file_path ?m))"
    and p2: "process_line ?w ?m ?s (hi_line @ newline) =
              (fst (process_line ?w ?m ?s (hi_line @ newline)),
               snd (process_line ?w ?m ?s (hi_line @ newline)))"
    and p3: "for_lines ?w ?m ?s ?f1 = (fst (for_lines ?w ?m ?s ?f1), snd (for_lines ?w ?m ?s ?f1))"
    and p4: "for_lines ?w ?m ?s ?f2 = (fst (for_lines ?w ?m ?s ?f2), snd (for_lines ?w ?m ?s ?f2))"
    and p5: "count_tokens_in_jsonl ?v default_file_path ?m =
              (fst (count_tokens_in_jsonl ?v default_file_path ?m),
               snd (count_tokens_in_jsonl ?v default_file_path ?m))"
    by (rule prod.collapse [symmetric])+
  have a: "total_tokens (snd (startup ?w default_file_path ?m)) = 0
           \<and> total_examples (snd (startup ?w default_file_path ?m)) = 0"
    using t1 [THEN conjunct1, THEN mp, OF p1] .
  have b: "total_examples (snd (process_line ?w ?m ?s (hi_line @ newline))) = 1
           \<and> total_tokens (snd (process_line ?w ?m ?s (hi_line @ newline))) = 5"
    using t1 [THEN conjunct2, THEN conjunct1, THEN mp, OF p2]
    by (simp add: zero demo_line_tokens)
  have c: "total_examples (snd (for_lines ?w ?m ?s ?f1)) = 2
           \<and> total_tokens (snd (for_lines ?w ?m ?s ?f1)) = 10"
    using t1 [THEN conjunct2, THEN conjunct2, THEN conjunct1, THEN mp, OF p3]
    by (simp add: zero k1 del: for_lines.simps counts_added.simps)
  have d: "total_examples (snd (for_lines ?w ?m ?s ?f2)) = 1
           \<and> total_tokens (snd (for_lines ?w ?m ?s ?f2)) = 5"
    using t2 [THEN conjunct2, THEN conjunct2, THEN conjunct1, THEN mp, OF p4]
    by (simp add: zero k2 del: for_lines.simps counts_added.simps)
  have e: "total_examples (snd (count_tokens_in_jsonl ?v default_file_path ?m)) = 1
           \<and> total_tokens (snd (count_tokens_in_jsonl ?v default_file_path ?m)) = 5"
    using t3 [THEN conjunct2, THEN conjunct2, THEN conjunct2, THEN conjunct1, THEN mp,
        OF conjI [OF st p5]]
    by (simp add: k3 del: for_lines.simps counts_added.simps)
  from a b c d e k1 k2 e1 e2 e3 show ?thesis
    by (simp del: for_lines.simps counts_added.simps)
qed

subsection \<open>Records of the wrong shape\<close>

text \<open>
  Claim C10. A non-blank line that decodes, but whose field extraction raises, ends the
  run: the line step prints the unexpected error and exits with code 1, the function
  does the same, no call is made for the line, and no line of the final report is
  printed. The witness runs the two shapes the claim names: a content entry whose first
  part has no \<open>text\<close> (a \<open>KeyError\<close>) and a \<open>systemInstruction\<close> whose \<open>parts\<close> is
  the empty list (an \<open>IndexError\<close>).
\<close>

theorem malformed_record_is_fatal:
  assumes "startup w file_path model_name = (Normal, s0)"
    and "files w file_path = Some (TextFile (before @ raw # rest))"
    and "for_lines w model_name s0 before = (Normal, s)"
    and "str_strip raw \<noteq> []"
    and "json_loads w (str_strip raw) = Inr data"
    and "text_to_count data = Inl e"
  shows "process_line w model_name s raw = (SysExit 1, py_print s (UnexpectedError e))
         \<and> count_tokens_in_jsonl w file_path model_name = (SysExit 1, py_print s (UnexpectedError e))
         \<and> exit_code (fst (count_tokens_in_jsonl w file_path model_name)) \<noteq> 0
         \<and> api_calls (snd (count_tokens_in_jsonl w file_path model_name)) = api_calls s
         \<and> \<not> list_ex is_report (stdout (snd (count_tokens_in_jsonl w file_path model_name)))"
proof -
  have err: "extraction_error e"
    using assms(6) by (rule text_to_count_raises)
  have step: "process_line w model_name s raw = (SysExit 1, py_print s (UnexpectedError e))"
    using assms(4,5,6) err by (simp add: process_line_unfold except_extraction_error)
  have loop: "for_lines w model_name s0 (before @ raw # rest) = (SysExit 1, py_print s (UnexpectedError e))"
    using assms(3) step by (simp add: for_lines_append)
  have "disk s0 = files w"
    using assms(1) by (auto dest: startup_frame)
  then have opened: "open_file s0 file_path = Inr (before @ raw # rest)"
    using assms(2) by (simp add: open_file_def)
  have run: "count_tokens_in_jsonl w file_path model_name = (SysExit 1, py_print s (UnexpectedError e))"
    using assms(1) opened loop by (simp add: count_tokens_in_jsonl_def)
  have "\<not> list_ex is_report (stdout s)"
    using startup_no_report [OF assms(1)] for_lines_no_report [OF assms(3)] by simp
  then have "\<not> list_ex is_report (stdout (py_print s (UnexpectedError e)))"
    by (simp add: py_print_simps)
  with step run show ?thesis
    by (simp add: py_print_simps)
qed

theorem malformed_record_is_fatal_witness:
  "text_to_count no_text_record = Inl KeyError
   \<and> count_tokens_in_jsonl (demo_world [hi_line @ newline, no_text_line @ newline, hi_line])
        default_file_path default_model
      = (SysExit 1,
         \<lparr>total_tokens = 5, total_examples = 1,
          stdout = [CountingTokensFor default_model (ascii ''us-central1''), Dashes,
                    UnexpectedError KeyError],
          api_calls = [(default_model, [JStr (ascii ''hi'')])],
          disk = files (demo_world [hi_line @ newline, no_text_line @ newline, hi_line])\<rparr>)
   \<and> text_to_count no_parts_record = Inl IndexError
   \<and> count_tokens_in_jsonl (demo_world [no_parts_line]) default_file_path default_model
      = (SysExit 1,
         \<lparr>total_tokens = 0, total_examples = 0,
          stdout = [CountingTokensFor default_model (ascii ''us-central1''), Dashes,
                    UnexpectedError IndexError],
          api_calls = [],
          disk = files (demo_world [no_parts_line])\<rparr>)"
proof -
  let ?f = "[hi_line @ newline, no_text_line @ newline, hi_line]"
  let ?start = "py_print (py_print (initial (demo_world ?f))
        (CountingTokensFor default_model (ascii ''us-central1''))) Dashes"
  let ?mid = "?start\<lparr>api_calls := api_calls ?start @ [(default_model, [JStr (ascii ''hi'')])],
               total_tokens := total_tokens ?start + 5,
               total_examples := total_examples ?start + 1\<rparr>"
  have a1: "startup (demo_world ?f) default_file_path default_model = (Normal, ?start)"
    by (rule demo_startup)
  have a2: "files (demo_world ?f) default_file_path = Some (TextFile ([hi_line @ newline] @ (no_text_line @ newline) # [hi_line]))"
    by (simp add: demo_world_simps)
  have a3: "for_lines (demo_world ?f) default_model ?start [hi_line @ newline] = (Normal, ?mid)"
    by (simp add: demo_hi_step)
  have a4: "str_strip (no_text_line @ newline) \<noteq> []"
    by (simp add: strip_lines lines_not_empty)
  have a5: "json_loads (demo_world ?f) (str_strip (no_text_line @ newline)) = Inr no_text_record"
    by (simp add: strip_lines demo_world_simps demo_loads_values)
  have a6: "text_to_count no_text_record = Inl KeyError"
    by (simp add: demo_texts)
  let ?g = "[no_parts_line]"
  let ?begin = "py_print (py_print (initial (demo_world ?g))
        (CountingTokensFor default_model (ascii ''us-central1''))) Dashes"
  have b1: "startup (demo_world ?g) default_file_path default_model = (Normal, ?begin)"
    by (rule demo_startup)
  have b2: "files (demo_world ?g) default_file_path = Some (TextFile ([] @ no_parts_line # []))"
    by (simp add: demo_world_simps)
  have b3: "for_lines (demo_world ?g) default_model ?begin [] = (Normal, ?begin)"
    by simp
  have b4: "str_strip no_parts_line \<noteq> []"
    by (simp add: strip_lines lines_not_empty)
  have b5: "json_loads (demo_world ?g) (str_strip no_parts_line) = Inr no_parts_record"
    by (simp add: strip_lines demo_world_simps demo_loads_values)
  have b6: "text_to_count no_parts_record = Inl IndexError"
    by (simp add: demo_texts)
  show ?thesis
    using malformed_record_is_fatal [OF a1 a2 a3 a4 a5 a6]
      malformed_record_is_fatal [OF b1 b2 b3 b4 b5 b6] a6 b6
    by (simp add: py_print_def initial_def)
qed

end
